theory Spec2Isabelle
  imports Main "HOL-Library.Word"
begin

section \<open>The health-check package of the Cloud SQL Auth proxy\<close>

text \<open>
  The package \<^verbatim>\<open>healthcheck\<close> exists in two versions in the sources. The first one is
  built around the type \<^verbatim>\<open>Server\<close> (\<^verbatim>\<open>NewServer\<close>, \<^verbatim>\<open>Close\<close>, \<^verbatim>\<open>NotifyStarted\<close>,
  \<^verbatim>\<open>isLive\<close>, \<^verbatim>\<open>isReady\<close>), the second one around the type \<^verbatim>\<open>HC\<close>
  (\<^verbatim>\<open>NewHealthCheck\<close>, \<^verbatim>\<open>CloseHealthCheck\<close>, \<^verbatim>\<open>NotifyReadyForConnections\<close>,
  \<^verbatim>\<open>livenessTest\<close>, \<^verbatim>\<open>readinessTest\<close>). Both are embedded here, function by function.

  Conventions of the embedding.
  \<^item> A Go function that reads or writes objects through pointers is a function on a
    \<open>world\<close>: the record of the objects it can reach (the proxy client, the health-check
    object, \<^verbatim>\<open>http.DefaultServeMux\<close>, the logging sink). It returns its Go result
    together with the world it leaves behind; a Go function without result returns the
    world only.
  \<^item> \<^verbatim>\<open>sync.Mutex\<close>: every \<^verbatim>\<open>Lock\<close> of the sources is followed on every path by the
    \<^verbatim>\<open>Unlock\<close> of the same mutex, and where two mutexes are held at once they are
    taken in one order (\<^verbatim>\<open>readinessL\<close>, then \<^verbatim>\<open>startupL\<close>). The embedding runs one
    operation at a time, so such a pair is the identity on the world; the mutexes are
    not part of the state, and the place of each critical section is noted at the
    definition that contains it.
  \<^item> The standard library (\<^verbatim>\<open>net.Listen\<close>, \<^verbatim>\<open>http.Server.Serve\<close>,
    \<^verbatim>\<open>ListenAndServe\<close>, \<^verbatim>\<open>Shutdown\<close>) is the environment: the record \<open>stdlib\<close> holds
    what each of these calls returns, and every theorem holds for all environments.
\<close>

subsection \<open>The proxy client\<close>

type_synonym uint64 = "64 word"

text \<open>
  The two fields of \<^verbatim>\<open>proxy.Client\<close> that the package reads. \<^verbatim>\<open>readinessTest\<close> loads
  \<^verbatim>\<open>ConnectionsCounter\<close> with \<^verbatim>\<open>atomic.LoadUint64\<close> and compares it with
  \<^verbatim>\<open>MaxConnections\<close>, so both are unsigned 64-bit integers.
\<close>

record Client =
  MaxConnections :: uint64
  ConnectionsCounter :: uint64

text \<open>
  Modelled from the spec: the method \<^verbatim>\<open>AvailableConn\<close> of \<^verbatim>\<open>proxy.Client\<close>, which
  \<^verbatim>\<open>isReady\<close> calls and whose body is not among the sources. The specification gives the
  condition under which the proxy is at its limit, \<^verbatim>\<open>max > 0 AND current >= max\<close>;
  a connection is available exactly when that condition fails.
\<close>

definition AvailableConn :: "Client \<Rightarrow> bool" where
  "AvailableConn c = (\<not> (MaxConnections c > 0 \<and> ConnectionsCounter c \<ge> MaxConnections c))"

subsection \<open>Errors, the logging sink, HTTP responses\<close>

datatype error = ErrServerClosed | DeadlineExceeded | Canceled | OpError string

datatype log_arg = ArgErr error | ArgUint uint64

type_synonym log_entry = "string \<times> log_arg list"

text \<open>\<^verbatim>\<open>logging.Errorf(format, args...)\<close> appends one entry to the sink.\<close>

definition Errorf :: "string \<Rightarrow> log_arg list \<Rightarrow> log_entry list \<Rightarrow> log_entry list" where
  "Errorf format args sink = sink @ [(format, args)]"

text \<open>
  An \<^verbatim>\<open>http.ResponseWriter\<close>: the status code of the header, once written, and the
  bytes of the body. The first \<^verbatim>\<open>WriteHeader\<close> fixes the status; \<^verbatim>\<open>Write\<close> appends to the
  body, after an implicit \<^verbatim>\<open>WriteHeader(200)\<close> when no header has been written.
\<close>

record ResponseWriter =
  status :: "nat option"
  body :: string

definition newResponseWriter :: ResponseWriter where
  "newResponseWriter = \<lparr>status = None, body = []\<rparr>"

definition WriteHeader :: "nat \<Rightarrow> ResponseWriter \<Rightarrow> ResponseWriter" where
  "WriteHeader code rw = (if status rw = None then rw\<lparr>status := Some code\<rparr> else rw)"

definition Write :: "string \<Rightarrow> ResponseWriter \<Rightarrow> ResponseWriter" where
  "Write bytes rw =
     (let rw' = WriteHeader 200 rw in rw'\<lparr>body := body rw' @ bytes\<rparr>)"

subsection \<open>Routes, servers and the environment\<close>

definition livenessPath :: string where
  "livenessPath = ''/liveness''"

definition readinessPath :: string where
  "readinessPath = ''/readiness''"

definition portNum :: string where
  "portNum = '':8080''"

text \<open>
  The two closures that the constructors register. Each captures the pointer to the
  proxy client and the pointer to the health-check object; when a handler runs, these are
  the \<open>client\<close> and the \<open>health\<close> of the world it runs in.
\<close>

datatype HandlerFunc = readinessFunc | livenessFunc

type_synonym ServeMux = "(string \<times> HandlerFunc) list"

definition NewServeMux :: ServeMux where
  "NewServeMux = []"

text \<open>
  \<^verbatim>\<open>HandleFunc\<close> registers a handler for a pattern and panics when the pattern is
  registered already; \<open>None\<close> is the panic.
\<close>

definition HandleFunc :: "string \<Rightarrow> HandlerFunc \<Rightarrow> ServeMux \<Rightarrow> ServeMux option" where
  "HandleFunc pattern handler m =
     (if pattern \<in> fst ` set m then None else Some (m @ [(pattern, handler)]))"

text \<open>
  An \<^verbatim>\<open>http.Server\<close> value as the constructors build it. A \<^verbatim>\<open>Handler\<close> of \<open>None\<close> is
  Go's nil handler: the server then serves \<^verbatim>\<open>http.DefaultServeMux\<close>.
\<close>

record http_Server =
  Addr :: string
  Handler :: "ServeMux option"

datatype Listener = TCPListener string

datatype Context = Background | WithDeadline nat

text \<open>
  What the standard library returns. \<open>net_Listen network address\<close> is an error or a
  listener; the other three return Go's \<^verbatim>\<open>error\<close>, \<open>None\<close> for \<^verbatim>\<open>nil\<close>.
\<close>

record stdlib =
  net_Listen :: "string \<Rightarrow> string \<Rightarrow> error + Listener"
  Serve :: "http_Server \<Rightarrow> Listener \<Rightarrow> error option"
  ListenAndServe :: "http_Server \<Rightarrow> error option"
  Shutdown :: "Context \<Rightarrow> http_Server \<Rightarrow> error option"

text \<open>
  The world of a running package: \<open>client\<close> is the object behind the
  \<^verbatim>\<open>*proxy.Client\<close> handed to the constructor, \<open>health\<close> the object behind the pointer
  the constructor returned (\<open>Server\<close> or \<open>HC\<close>).
\<close>

record 'h world =
  client :: Client
  health :: 'h
  DefaultServeMux :: ServeMux
  logs :: "log_entry list"

text \<open>
  The goroutine a constructor starts: the first version serves a listener that is
  bound already, the second one binds and serves in the background.
\<close>

datatype goroutine = GoServe http_Server Listener | GoListenAndServe http_Server

text \<open>
  The body of the goroutine, run to the point where the serving call has returned:
  an error other than \<^verbatim>\<open>http.ErrServerClosed\<close> is logged, nothing else happens. Errors
  of the model wrap no other error, so \<^verbatim>\<open>errors.Is\<close> is equality.
\<close>

fun run_goroutine :: "stdlib \<Rightarrow> goroutine \<Rightarrow> log_entry list \<Rightarrow> log_entry list" where
  "run_goroutine env (GoServe s ln) sink =
     (case Serve env s ln of
        None \<Rightarrow> sink
      | Some err \<Rightarrow>
          if err \<noteq> ErrServerClosed then Errorf ''Failed to serve: %v'' [ArgErr err] sink
          else sink)"
| "run_goroutine env (GoListenAndServe s) sink =
     (case ListenAndServe env s of
        None \<Rightarrow> sink
      | Some err \<Rightarrow>
          if err \<noteq> ErrServerClosed
          then Errorf ''Failed to start endpoint(s): %v'' [ArgErr err] sink
          else sink)"

section \<open>The first version: \<^verbatim>\<open>Server\<close>\<close>

text \<open>
  \<^verbatim>\<open>startedL\<close>, the mutex that protects \<open>started\<close>, is not a field of the model (see the
  conventions above). The methods of \<^verbatim>\<open>Server\<close> do not test their receiver; it is the
  object that \<^verbatim>\<open>NewServer\<close> returned, the \<open>health\<close> of the world.
\<close>

record Server =
  started :: bool
  port :: string
  srv :: http_Server

text \<open>
  \<^verbatim>\<open>NewServer(c, port)\<close>. The result is \<open>None\<close> when a registration panics,
  \<open>Some (Inl err)\<close> for Go's \<^verbatim>\<open>(nil, err)\<close> and \<open>Some (Inr (hcServer, g))\<close> for
  \<^verbatim>\<open>(hcServer, nil)\<close>, with \<open>g\<close> the goroutine that was started. The mux is reached
  through a pointer, so the server built before the two registrations serves both routes.
  The composite literal does not name \<open>started\<close>, which so has Go's zero value.
\<close>

definition NewServer :: "stdlib \<Rightarrow> string \<Rightarrow> (error + Server \<times> goroutine) option" where
  "NewServer env port' =
     (case HandleFunc readinessPath readinessFunc NewServeMux of
        None \<Rightarrow> None
      | Some mux1 \<Rightarrow>
     (case HandleFunc livenessPath livenessFunc mux1 of
        None \<Rightarrow> None
      | Some mux2 \<Rightarrow>
          let srv' = \<lparr>Addr = '':'' @ port', Handler = Some mux2\<rparr>;
              hcServer = \<lparr>started = False, port = port', srv = srv'\<rparr>
          in Some (case net_Listen env ''tcp'' (Addr srv') of
                     Inl err \<Rightarrow> Inl err
                   | Inr ln \<Rightarrow> Inr (hcServer, GoServe srv' ln))))"

text \<open>\<^verbatim>\<open>Close(ctx)\<close> returns what \<^verbatim>\<open>s.srv.Shutdown(ctx)\<close> returns.\<close>

definition Close :: "stdlib \<Rightarrow> Context \<Rightarrow> Server world \<Rightarrow> error option \<times> Server world" where
  "Close env ctx w = (let err = Shutdown env ctx (Server.srv (health w)) in (err, w))"

text \<open>\<^verbatim>\<open>NotifyStarted()\<close>: one critical section of \<^verbatim>\<open>startedL\<close> that sets the flag.\<close>

definition NotifyStarted :: "Server world \<Rightarrow> Server world" where
  "NotifyStarted w = w\<lparr>health := (health w)\<lparr>Server.started := True\<rparr>\<rparr>"

definition isLive :: bool where
  "isLive = True"

text \<open>
  \<^verbatim>\<open>isReady(c, s)\<close>: the flag is read in a critical section of \<^verbatim>\<open>startedL\<close> into the
  local \<open>started'\<close>; each failing check logs its reason.
\<close>

definition isReady :: "Server world \<Rightarrow> bool \<times> Server world" where
  "isReady w =
     (let started' = Server.started (health w) in
      if \<not> started' then
        (False, w\<lparr>logs := Errorf
           ''Readiness failed because proxy has not finished starting up.'' [] (logs w)\<rparr>)
      else if \<not> AvailableConn (client w) then
        (False, w\<lparr>logs := Errorf
           ''Readiness failed because proxy has reached the maximum connections limit (%d).''
           [ArgUint (MaxConnections (client w))] (logs w)\<rparr>)
      else (True, w))"

text \<open>The handlers that \<^verbatim>\<open>NewServer\<close> registers for the two paths.\<close>

definition readinessHandler ::
  "ResponseWriter \<Rightarrow> Server world \<Rightarrow> ResponseWriter \<times> Server world" where
  "readinessHandler rw w =
     (case isReady w of (r, w') \<Rightarrow>
        if \<not> r then (Write ''error'' (WriteHeader 500 rw), w')
        else (Write ''ok'' (WriteHeader 200 rw), w'))"

definition livenessHandler ::
  "ResponseWriter \<Rightarrow> Server world \<Rightarrow> ResponseWriter \<times> Server world" where
  "livenessHandler rw w =
     (if \<not> isLive then (Write ''error'' (WriteHeader 500 rw), w)
      else (Write ''ok'' (WriteHeader 200 rw), w))"

section \<open>The second version: \<^verbatim>\<open>HC\<close>\<close>

text \<open>
  The package-level mutexes \<^verbatim>\<open>readinessL\<close>, \<^verbatim>\<open>livenessL\<close> and \<^verbatim>\<open>startupL\<close> are not
  part of the model (see the conventions above).
\<close>

record HC =
  live :: bool
  ready :: bool
  started :: bool
  srv :: http_Server

text \<open>
  A value of type \<^verbatim>\<open>*HC\<close> as a method receives it: Go's \<^verbatim>\<open>nil\<close>, or the pointer to the
  \<open>HC\<close> object of the world.
\<close>

datatype HC_ptr = nil | hc_ref

text \<open>
  \<^verbatim>\<open>NewHealthCheck(proxyClient)\<close> registers its handlers with \<^verbatim>\<open>http.DefaultServeMux\<close>,
  given as argument and returned updated. The result is \<open>None\<close> when a registration
  panics; otherwise it is the new \<open>HC\<close> object, the mux and the goroutine that was
  started. Go's signature has no error result.
\<close>

definition NewHealthCheck :: "ServeMux \<Rightarrow> (HC \<times> ServeMux \<times> goroutine) option" where
  "NewHealthCheck dmux =
     (let srv' = \<lparr>Addr = portNum, Handler = None\<rparr>;
          hc = \<lparr>live = True, ready = False, started = False, srv = srv'\<rparr>
      in case HandleFunc readinessPath readinessFunc dmux of
           None \<Rightarrow> None
         | Some mux1 \<Rightarrow>
        (case HandleFunc livenessPath livenessFunc mux1 of
           None \<Rightarrow> None
         | Some mux2 \<Rightarrow> Some (hc, mux2, GoListenAndServe srv')))"

text \<open>
  \<^verbatim>\<open>CloseHealthCheck()\<close> has neither parameter nor result: it shuts down with
  \<^verbatim>\<open>context.Background()\<close> and logs an error of \<^verbatim>\<open>Shutdown\<close>.
\<close>

definition CloseHealthCheck :: "stdlib \<Rightarrow> HC_ptr \<Rightarrow> HC world \<Rightarrow> HC world" where
  "CloseHealthCheck env hc w =
     (if hc \<noteq> nil then
        (case Shutdown env Background (HC.srv (health w)) of
           Some err \<Rightarrow>
             w\<lparr>logs := Errorf ''Failed to shut down health check: '' [ArgErr err] (logs w)\<rparr>
         | None \<Rightarrow> w)
      else w)"

definition NotifyReadyForConnections :: "HC_ptr \<Rightarrow> HC world \<Rightarrow> HC world" where
  "NotifyReadyForConnections hc w =
     (if hc \<noteq> nil then w\<lparr>health := (health w)\<lparr>HC.started := True\<rparr>\<rparr> else w)"

definition livenessTest :: bool where
  "livenessTest = True"

text \<open>
  \<^verbatim>\<open>readinessTest(proxyClient, hc)\<close>: the flag is read in a critical section of
  \<^verbatim>\<open>startupL\<close>, which both branches leave before they log or go on.
\<close>

definition readinessTest :: "HC world \<Rightarrow> bool \<times> HC world" where
  "readinessTest w =
     (if \<not> HC.started (health w) then
        (False, w\<lparr>logs := Errorf
           ''Readiness failed because proxy has not finished starting up.'' [] (logs w)\<rparr>)
      else if MaxConnections (client w) > 0
              \<and> ConnectionsCounter (client w) \<ge> MaxConnections (client w) then
        (False, w\<lparr>logs := Errorf
           ''Readiness failed because proxy has reached the maximum connections limit (%d).''
           [ArgUint (MaxConnections (client w))] (logs w)\<rparr>)
      else (True, w))"

text \<open>
  The handlers that \<^verbatim>\<open>NewHealthCheck\<close> registers. Each stores the result of its test in
  the \<open>HC\<close> object (inside a critical section of \<^verbatim>\<open>readinessL\<close> or \<^verbatim>\<open>livenessL\<close>) and
  answers from the stored value. The bodies end with a line feed.
\<close>

definition readinessHandlerHC ::
  "ResponseWriter \<Rightarrow> HC world \<Rightarrow> ResponseWriter \<times> HC world" where
  "readinessHandlerHC rw w =
     (case readinessTest w of (r, w1) \<Rightarrow>
        let w2 = w1\<lparr>health := (health w1)\<lparr>ready := r\<rparr>\<rparr> in
        if \<not> ready (health w2) then (Write (''error'' @ [CHR 0x0A]) (WriteHeader 500 rw), w2)
        else (Write (''ok'' @ [CHR 0x0A]) (WriteHeader 200 rw), w2))"

definition livenessHandlerHC ::
  "ResponseWriter \<Rightarrow> HC world \<Rightarrow> ResponseWriter \<times> HC world" where
  "livenessHandlerHC rw w =
     (let w1 = w\<lparr>health := (health w)\<lparr>live := livenessTest\<rparr>\<rparr> in
      if \<not> live (health w1) then (Write (''error'' @ [CHR 0x0A]) (WriteHeader 500 rw), w1)
      else (Write (''ok'' @ [CHR 0x0A]) (WriteHeader 200 rw), w1))"

section \<open>Sequences of operations\<close>

text \<open>
  What can happen to a world once the constructor has returned: a call of a method or
  of a predicate, a request to one of the two paths (served with a fresh response
  writer), the goroutine reaching the end of its serving call, and the proxy changing
  its connection count or limit. A step keeps the world an operation leaves behind; a
  run is a sequence of steps.
\<close>

datatype Server_op =
    Op_NotifyStarted
  | Op_Close Context
  | Op_isReady
  | Op_isLive
  | Op_GET_readiness
  | Op_GET_liveness
  | Op_goroutine goroutine
  | Op_proxy Client

fun Server_step :: "stdlib \<Rightarrow> Server_op \<Rightarrow> Server world \<Rightarrow> Server world" where
  "Server_step env Op_NotifyStarted w = NotifyStarted w"
| "Server_step env (Op_Close ctx) w = snd (Close env ctx w)"
| "Server_step env Op_isReady w = snd (isReady w)"
| "Server_step env Op_isLive w = w"
| "Server_step env Op_GET_readiness w = snd (readinessHandler newResponseWriter w)"
| "Server_step env Op_GET_liveness w = snd (livenessHandler newResponseWriter w)"
| "Server_step env (Op_goroutine g) w = w\<lparr>logs := run_goroutine env g (logs w)\<rparr>"
| "Server_step env (Op_proxy c) w = w\<lparr>client := c\<rparr>"

fun Server_run :: "stdlib \<Rightarrow> Server_op list \<Rightarrow> Server world \<Rightarrow> Server world" where
  "Server_run env [] w = w"
| "Server_run env (x # xs) w = Server_run env xs (Server_step env x w)"

datatype HC_op =
    Op_NotifyReadyForConnections HC_ptr
  | Op_CloseHealthCheck HC_ptr
  | Op_readinessTest
  | Op_livenessTest
  | Op_GET_readiness_HC
  | Op_GET_liveness_HC
  | Op_goroutine_HC goroutine
  | Op_proxy_HC Client

fun HC_step :: "stdlib \<Rightarrow> HC_op \<Rightarrow> HC world \<Rightarrow> HC world" where
  "HC_step env (Op_NotifyReadyForConnections p) v = NotifyReadyForConnections p v"
| "HC_step env (Op_CloseHealthCheck p) v = CloseHealthCheck env p v"
| "HC_step env Op_readinessTest v = snd (readinessTest v)"
| "HC_step env Op_livenessTest v = v"
| "HC_step env Op_GET_readiness_HC v = snd (readinessHandlerHC newResponseWriter v)"
| "HC_step env Op_GET_liveness_HC v = snd (livenessHandlerHC newResponseWriter v)"
| "HC_step env (Op_goroutine_HC g) v = v\<lparr>logs := run_goroutine env g (logs v)\<rparr>"
| "HC_step env (Op_proxy_HC c) v = v\<lparr>client := c\<rparr>"

fun HC_run :: "stdlib \<Rightarrow> HC_op list \<Rightarrow> HC world \<Rightarrow> HC world" where
  "HC_run env [] v = v"
| "HC_run env (x # xs) v = HC_run env xs (HC_step env x v)"

section \<open>Concrete inputs\<close>

text \<open>
  Two environments and two worlds on which the theorems below are instantiated. In
  \<open>env_serving\<close> the port is free and shutdown is clean. In \<open>env_failing\<close> the port is
  in use, and shutdown fails: by its deadline when the context has one, while closing
  the listener otherwise. The two worlds hold the client of the package's test
  \<^verbatim>\<open>TestMaxConnectionsReached\<close>, a limit of ten connections that are all in use, and
  a health-check object as its constructor returns it.
\<close>

definition env_serving :: stdlib where
  "env_serving =
     \<lparr>net_Listen = (\<lambda>network address. Inr (TCPListener address)),
      Serve = (\<lambda>s ln. Some ErrServerClosed),
      ListenAndServe = (\<lambda>s. Some ErrServerClosed),
      Shutdown = (\<lambda>ctx s. None)\<rparr>"

definition env_failing :: stdlib where
  "env_failing =
     \<lparr>net_Listen = (\<lambda>network address. Inl (OpError ''bind: address already in use'')),
      Serve = (\<lambda>s ln. Some (OpError ''accept: too many open files'')),
      ListenAndServe = (\<lambda>s. Some (OpError ''bind: address already in use'')),
      Shutdown = (\<lambda>ctx s. case ctx of
                    Background \<Rightarrow> Some (OpError ''close: input/output error'')
                  | WithDeadline d \<Rightarrow> Some DeadlineExceeded)\<rparr>"

definition test_Server_world :: "Server world" where
  "test_Server_world =
     \<lparr>client = \<lparr>MaxConnections = 10, ConnectionsCounter = 10\<rparr>,
      health = \<lparr>Server.started = False, port = ''8090'',
                Server.srv = \<lparr>Addr = '':8090'',
                       Handler = Some [(''/readiness'', readinessFunc),
                                       (''/liveness'', livenessFunc)]\<rparr>\<rparr>,
      DefaultServeMux = [],
      logs = []\<rparr>"

definition test_HC_world :: "HC world" where
  "test_HC_world =
     \<lparr>client = \<lparr>MaxConnections = 10, ConnectionsCounter = 10\<rparr>,
      health = \<lparr>live = True, ready = False, started = False,
                srv = \<lparr>Addr = '':8080'', Handler = None\<rparr>\<rparr>,
      DefaultServeMux = [(''/readiness'', readinessFunc), (''/liveness'', livenessFunc)],
      logs = []\<rparr>"

section \<open>Basic facts\<close>

lemma isReady_fst: "fst (isReady w) = (Server.started (health w) \<and> AvailableConn (client w))"
  by (simp add: isReady_def Let_def)

lemma isReady_snd:
  "health (snd (isReady w)) = health w \<and> client (snd (isReady w)) = client w
   \<and> DefaultServeMux (snd (isReady w)) = DefaultServeMux w"
  by (simp add: isReady_def Let_def)

lemma readinessTest_fst:
  "fst (readinessTest v) =
     (HC.started (health v)
      \<and> \<not> (MaxConnections (client v) > 0
            \<and> ConnectionsCounter (client v) \<ge> MaxConnections (client v)))"
  by (simp add: readinessTest_def)

lemma readinessTest_snd:
  "health (snd (readinessTest v)) = health v \<and> client (snd (readinessTest v)) = client v
   \<and> DefaultServeMux (snd (readinessTest v)) = DefaultServeMux v"
  by (simp add: readinessTest_def)

lemma NewServer_cases:
  "NewServer env p =
     Some (case net_Listen env ''tcp'' ('':'' @ p) of
             Inl err \<Rightarrow> Inl err
           | Inr ln \<Rightarrow>
               Inr (\<lparr>Server.started = False, port = p,
                     Server.srv = \<lparr>Addr = '':'' @ p,
                            Handler = Some [(readinessPath, readinessFunc),
                                            (livenessPath, livenessFunc)]\<rparr>\<rparr>,
                    GoServe \<lparr>Addr = '':'' @ p,
                             Handler = Some [(readinessPath, readinessFunc),
                                             (livenessPath, livenessFunc)]\<rparr> ln))"
  by (simp add: NewServer_def HandleFunc_def NewServeMux_def readinessPath_def
      livenessPath_def Let_def split: sum.split)

lemma NewServer_not_started: "NewServer env p = Some (Inr (s, g)) \<Longrightarrow> \<not> Server.started s"
  by (auto simp: NewServer_cases split: sum.splits)

lemma NewHealthCheck_not_started: "NewHealthCheck m = Some (h, m', g) \<Longrightarrow> \<not> HC.started h"
  by (auto simp: NewHealthCheck_def Let_def split: option.splits)

lemma Server_step_started:
  "Server.started (health (Server_step env x w))
     = (Server.started (health w) \<or> x = Op_NotifyStarted)"
  by (cases x)
    (simp_all add: NotifyStarted_def Close_def Let_def isReady_snd readinessHandler_def
      livenessHandler_def split: prod.splits if_splits,
     metis isReady_snd snd_conv)

lemma HC_step_started:
  "HC.started (health (HC_step env x v))
     = (HC.started (health v) \<or> x = Op_NotifyReadyForConnections hc_ref)"
proof (cases x)
  case (Op_NotifyReadyForConnections p)
  then show ?thesis by (cases p) (simp_all add: NotifyReadyForConnections_def)
next
  case (Op_CloseHealthCheck p)
  then show ?thesis by (simp add: CloseHealthCheck_def split: option.splits)
next
  case Op_readinessTest
  then show ?thesis by (simp add: readinessTest_snd)
next
  case Op_GET_readiness_HC
  then show ?thesis
    by (simp add: readinessHandlerHC_def Let_def readinessTest_def split: prod.splits)
next
  case Op_GET_liveness_HC
  then show ?thesis by (simp add: livenessHandlerHC_def Let_def)
qed simp_all

lemma Server_run_started:
  "Server.started (health w) \<Longrightarrow> Server.started (health (Server_run env xs w))"
  by (induction xs arbitrary: w) (simp_all add: Server_step_started)

lemma HC_run_started:
  "HC.started (health v) \<Longrightarrow> HC.started (health (HC_run env xs v))"
  by (induction xs arbitrary: v) (simp_all add: HC_step_started)

lemma Server_run_not_started:
  "\<not> Server.started (health w) \<Longrightarrow> Op_NotifyStarted \<notin> set xs
   \<Longrightarrow> \<not> Server.started (health (Server_run env xs w))"
proof (induction xs arbitrary: w)
  case Nil
  then show ?case by simp
next
  case (Cons x xs)
  from Cons.prems(2) have x: "x \<noteq> Op_NotifyStarted" and xs: "Op_NotifyStarted \<notin> set xs"
    by (simp_all add: neq_commute)
  from Cons.prems(1) x have "\<not> Server.started (health (Server_step env x w))"
    by (simp add: Server_step_started)
  from Cons.IH [OF this xs] show ?case by simp
qed

lemma HC_run_not_started:
  "\<not> HC.started (health v) \<Longrightarrow> Op_NotifyReadyForConnections hc_ref \<notin> set xs
   \<Longrightarrow> \<not> HC.started (health (HC_run env xs v))"
proof (induction xs arbitrary: v)
  case Nil
  then show ?case by simp
next
  case (Cons x xs)
  from Cons.prems(2) have x: "x \<noteq> Op_NotifyReadyForConnections hc_ref"
    and xs: "Op_NotifyReadyForConnections hc_ref \<notin> set xs"
    by (simp_all add: neq_commute)
  from Cons.prems(1) x have "\<not> HC.started (health (HC_step env x v))"
    by (simp add: HC_step_started)
  from Cons.IH [OF this xs] show ?case by simp
qed

lemma fresh_response [simp]:
  "Write bytes (WriteHeader code newResponseWriter) = \<lparr>status = Some code, body = bytes\<rparr>"
  by (simp add: Write_def WriteHeader_def newResponseWriter_def)

lemma NewHealthCheck_fresh:
  "NewHealthCheck [] =
     Some (\<lparr>live = True, ready = False, started = False,
            srv = \<lparr>Addr = '':8080'', Handler = None\<rparr>\<rparr>,
           [(''/readiness'', readinessFunc), (''/liveness'', livenessFunc)],
           GoListenAndServe \<lparr>Addr = '':8080'', Handler = None\<rparr>)"
  by (simp add: NewHealthCheck_def HandleFunc_def readinessPath_def livenessPath_def
      portNum_def Let_def)

lemma NewHealthCheck_goroutine:
  "NewHealthCheck m = Some (h, m', g) \<Longrightarrow> g = GoListenAndServe (HC.srv h)"
  by (auto simp: NewHealthCheck_def Let_def split: option.splits)

lemma NewHealthCheck_returns:
  "readinessPath \<notin> fst ` set m \<Longrightarrow> livenessPath \<notin> fst ` set m
   \<Longrightarrow> NewHealthCheck m \<noteq> None"
  by (simp add: NewHealthCheck_def HandleFunc_def readinessPath_def livenessPath_def Let_def)

section \<open>The readiness predicate\<close>

text \<open>
  C1. For every value of the started flag and every pair of connection count and limit,
  the readiness predicate, \<open>isReady\<close> as well as \<open>readinessTest\<close>, returns false when
  started is false, false when the limit is positive and the count has reached it, and
  true otherwise; the returned boolean depends on nothing else. In particular, once
  started, a limit of 10 gives false at a count of 10 and true at a count of 9, and a
  limit of 0 gives true at every count.
\<close>

theorem readiness_predicate_value:
  "fst (isReady w) =
     (if \<not> Server.started (health w) then False
      else if MaxConnections (client w) > 0
              \<and> ConnectionsCounter (client w) \<ge> MaxConnections (client w) then False
      else True)
   \<and> fst (readinessTest v) =
     (if \<not> HC.started (health v) then False
      else if MaxConnections (client v) > 0
              \<and> ConnectionsCounter (client v) \<ge> MaxConnections (client v) then False
      else True)
   \<and> \<not> fst (isReady ((NotifyStarted w)
          \<lparr>client := \<lparr>MaxConnections = 10, ConnectionsCounter = 10\<rparr>\<rparr>))
   \<and> fst (isReady ((NotifyStarted w)
          \<lparr>client := \<lparr>MaxConnections = 10, ConnectionsCounter = 9\<rparr>\<rparr>))
   \<and> fst (isReady ((NotifyStarted w)
          \<lparr>client := \<lparr>MaxConnections = 0, ConnectionsCounter = n\<rparr>\<rparr>))
   \<and> \<not> fst (readinessTest ((NotifyReadyForConnections hc_ref v)
          \<lparr>client := \<lparr>MaxConnections = 10, ConnectionsCounter = 10\<rparr>\<rparr>))
   \<and> fst (readinessTest ((NotifyReadyForConnections hc_ref v)
          \<lparr>client := \<lparr>MaxConnections = 10, ConnectionsCounter = 9\<rparr>\<rparr>))
   \<and> fst (readinessTest ((NotifyReadyForConnections hc_ref v)
          \<lparr>client := \<lparr>MaxConnections = 0, ConnectionsCounter = n\<rparr>\<rparr>))"
  by (simp add: isReady_fst readinessTest_fst AvailableConn_def NotifyStarted_def
      NotifyReadyForConnections_def)

theorem readiness_predicate_value_witness:
  "\<not> fst (isReady test_Server_world)
   \<and> \<not> fst (isReady (NotifyStarted test_Server_world))
   \<and> fst (isReady ((NotifyStarted test_Server_world)
          \<lparr>client := \<lparr>MaxConnections = 10, ConnectionsCounter = 9\<rparr>\<rparr>))
   \<and> fst (isReady ((NotifyStarted test_Server_world)
          \<lparr>client := \<lparr>MaxConnections = 0, ConnectionsCounter = 18446744073709551615\<rparr>\<rparr>))
   \<and> \<not> fst (readinessTest test_HC_world)
   \<and> \<not> fst (readinessTest (NotifyReadyForConnections hc_ref test_HC_world))
   \<and> fst (readinessTest ((NotifyReadyForConnections hc_ref test_HC_world)
          \<lparr>client := \<lparr>MaxConnections = 10, ConnectionsCounter = 9\<rparr>\<rparr>))"
proof -
  have a: "\<not> Server.started (health test_Server_world)"
    and b: "\<not> HC.started (health test_HC_world)"
    by (simp_all add: test_Server_world_def test_HC_world_def)
  have c: "NotifyStarted test_Server_world
             = (NotifyStarted test_Server_world)
                 \<lparr>client := \<lparr>MaxConnections = 10, ConnectionsCounter = 10\<rparr>\<rparr>"
    and d: "NotifyReadyForConnections hc_ref test_HC_world
             = (NotifyReadyForConnections hc_ref test_HC_world)
                 \<lparr>client := \<lparr>MaxConnections = 10, ConnectionsCounter = 10\<rparr>\<rparr>"
    by (simp_all add: test_Server_world_def test_HC_world_def NotifyStarted_def
        NotifyReadyForConnections_def)
  show ?thesis
    using a b c d
      readiness_predicate_value [of test_Server_world test_HC_world 18446744073709551615]
    by simp
qed

section \<open>The started flag\<close>

text \<open>
  C2. The started flag is monotonic. It is false in the object a constructor returns
  (\<open>NewServer\<close>, \<open>NewHealthCheck\<close>). Over one step of any operation its new value is the
  old value, or true when the step is the start notification on the object
  (\<open>NotifyStarted\<close>, \<open>NotifyReadyForConnections\<close>): no other operation writes it, and
  none resets it. Hence, once it is true, it is true after every further sequence of
  operations.
\<close>

theorem started_flag_monotonic:
  "(NewServer env p = Some (Inr (s, g)) \<longrightarrow> \<not> Server.started s)
   \<and> (NewHealthCheck m = Some (h, m', g') \<longrightarrow> \<not> HC.started h)
   \<and> Server.started (health (Server_step env x w))
       = (Server.started (health w) \<or> x = Op_NotifyStarted)
   \<and> HC.started (health (HC_step env y v))
       = (HC.started (health v) \<or> y = Op_NotifyReadyForConnections hc_ref)
   \<and> (Server.started (health w) \<longrightarrow> Server.started (health (Server_run env xs w)))
   \<and> (HC.started (health v) \<longrightarrow> HC.started (health (HC_run env ys v)))"
  by (auto simp: Server_step_started HC_step_started
      dest: NewServer_not_started NewHealthCheck_not_started
      intro: Server_run_started HC_run_started)

theorem started_flag_monotonic_witness:
  "NewServer env_serving ''8090''
     = Some (Inr (health test_Server_world,
                  GoServe (Server.srv (health test_Server_world)) (TCPListener '':8090'')))
   \<and> \<not> Server.started (health test_Server_world)
   \<and> NewHealthCheck []
     = Some (health test_HC_world, DefaultServeMux test_HC_world,
             GoListenAndServe (HC.srv (health test_HC_world)))
   \<and> \<not> HC.started (health test_HC_world)
   \<and> Server.started (health (NotifyStarted test_Server_world))
   \<and> Server.started (health (Server_run env_failing
        [Op_GET_readiness, Op_Close (WithDeadline 5), Op_isReady, Op_GET_liveness]
        (NotifyStarted test_Server_world)))
   \<and> HC.started (health (NotifyReadyForConnections hc_ref test_HC_world))
   \<and> HC.started (health (HC_run env_failing
        [Op_GET_readiness_HC, Op_CloseHealthCheck hc_ref, Op_NotifyReadyForConnections nil,
         Op_GET_liveness_HC]
        (NotifyReadyForConnections hc_ref test_HC_world)))"
proof -
  have a: "NewServer env_serving ''8090''
     = Some (Inr (health test_Server_world,
                  GoServe (Server.srv (health test_Server_world)) (TCPListener '':8090'')))"
    by (simp add: NewServer_cases env_serving_def test_Server_world_def readinessPath_def
        livenessPath_def)
  have b: "NewHealthCheck []
     = Some (health test_HC_world, DefaultServeMux test_HC_world,
             GoListenAndServe (HC.srv (health test_HC_world)))"
    by (simp add: NewHealthCheck_def HandleFunc_def test_HC_world_def readinessPath_def
        livenessPath_def portNum_def Let_def)
  have c: "Server.started (health (NotifyStarted test_Server_world))"
    by (simp add: NotifyStarted_def)
  have d: "HC.started (health (NotifyReadyForConnections hc_ref test_HC_world))"
    by (simp add: NotifyReadyForConnections_def)
  note i = started_flag_monotonic [where env = env_serving and p = "''8090''"
        and s = "health test_Server_world" and m = "[]" and h = "health test_HC_world"]
  note r = started_flag_monotonic [where env = env_failing
        and w = "NotifyStarted test_Server_world"
        and v = "NotifyReadyForConnections hc_ref test_HC_world"]
  have e: "\<not> Server.started (health test_Server_world)"
    using a i [THEN conjunct1] by (rule rev_mp)
  have f: "\<not> HC.started (health test_HC_world)"
    using b i [THEN conjunct2, THEN conjunct1] by (rule rev_mp)
  have g: "Server.started (health (Server_run env_failing xs
             (NotifyStarted test_Server_world)))" for xs
    using c r [THEN conjunct2, THEN conjunct2, THEN conjunct2, THEN conjunct2,
        THEN conjunct1] by (rule rev_mp)
  have h: "HC.started (health (HC_run env_failing ys
             (NotifyReadyForConnections hc_ref test_HC_world)))" for ys
    using d r [THEN conjunct2, THEN conjunct2, THEN conjunct2, THEN conjunct2,
        THEN conjunct2] by (rule rev_mp)
  show ?thesis
    by (intro conjI a b c d e f g h)
qed

text \<open>
  C4. Whatever the connection count and the limit, the readiness predicate returns
  false while the started flag is false; and after a constructor has returned, it
  returns false after every sequence of operations that contains no start notification
  on the object.
\<close>

theorem not_started_not_ready:
  "(\<not> Server.started (health w) \<longrightarrow> \<not> fst (isReady w))
   \<and> (\<not> HC.started (health v) \<longrightarrow> \<not> fst (readinessTest v))
   \<and> (NewServer env p = Some (Inr (s, g)) \<and> Op_NotifyStarted \<notin> set xs \<longrightarrow>
        \<not> fst (isReady (Server_run env xs
              \<lparr>client = c, health = s, DefaultServeMux = dm, logs = l\<rparr>)))
   \<and> (NewHealthCheck m = Some (h, m', g') \<and> Op_NotifyReadyForConnections hc_ref \<notin> set ys \<longrightarrow>
        \<not> fst (readinessTest (HC_run env ys
              \<lparr>client = c, health = h, DefaultServeMux = m', logs = l\<rparr>)))"
proof -
  have "\<not> fst (isReady (Server_run env xs
              \<lparr>client = c, health = s, DefaultServeMux = dm, logs = l\<rparr>))"
    if "NewServer env p = Some (Inr (s, g))" and "Op_NotifyStarted \<notin> set xs"
    using that NewServer_not_started [of env p s g]
      Server_run_not_started
        [of "\<lparr>client = c, health = s, DefaultServeMux = dm, logs = l\<rparr>" xs env]
    by (simp add: isReady_fst)
  moreover have "\<not> fst (readinessTest (HC_run env ys
              \<lparr>client = c, health = h, DefaultServeMux = m', logs = l\<rparr>))"
    if "NewHealthCheck m = Some (h, m', g')"
      and "Op_NotifyReadyForConnections hc_ref \<notin> set ys"
    using that NewHealthCheck_not_started [of m h m' g']
      HC_run_not_started
        [of "\<lparr>client = c, health = h, DefaultServeMux = m', logs = l\<rparr>" ys env]
    by (simp add: readinessTest_fst)
  ultimately show ?thesis
    by (simp add: isReady_fst readinessTest_fst)
qed

theorem not_started_not_ready_witness:
  "\<not> Server.started (health test_Server_world)
   \<and> \<not> fst (isReady test_Server_world)
   \<and> \<not> HC.started (health test_HC_world)
   \<and> \<not> fst (readinessTest test_HC_world)
   \<and> \<not> fst (isReady (Server_run env_serving
        [Op_proxy \<lparr>MaxConnections = 0, ConnectionsCounter = 3\<rparr>, Op_GET_readiness,
         Op_Close Background]
        test_Server_world))
   \<and> \<not> fst (readinessTest (HC_run env_serving
        [Op_proxy_HC \<lparr>MaxConnections = 0, ConnectionsCounter = 3\<rparr>, Op_GET_readiness_HC,
         Op_NotifyReadyForConnections nil]
        test_HC_world))"
proof -
  have a: "NewServer env_serving ''8090''
     = Some (Inr (health test_Server_world,
                  GoServe (Server.srv (health test_Server_world)) (TCPListener '':8090'')))"
    by (simp add: NewServer_cases env_serving_def test_Server_world_def readinessPath_def
        livenessPath_def)
  have b: "NewHealthCheck []
     = Some (health test_HC_world, DefaultServeMux test_HC_world,
             GoListenAndServe (HC.srv (health test_HC_world)))"
    by (simp add: NewHealthCheck_def HandleFunc_def test_HC_world_def readinessPath_def
        livenessPath_def portNum_def Let_def)
  have c: "\<not> Server.started (health test_Server_world)"
    and d: "\<not> HC.started (health test_HC_world)"
    by (simp_all add: test_Server_world_def test_HC_world_def)
  have e: "test_Server_world
     = \<lparr>client = \<lparr>MaxConnections = 10, ConnectionsCounter = 10\<rparr>,
        health = health test_Server_world, DefaultServeMux = [], logs = []\<rparr>"
    and f: "test_HC_world
     = \<lparr>client = \<lparr>MaxConnections = 10, ConnectionsCounter = 10\<rparr>,
        health = health test_HC_world, DefaultServeMux = DefaultServeMux test_HC_world,
        logs = []\<rparr>"
    by (simp_all add: test_Server_world_def test_HC_world_def)
  have g: "Op_NotifyStarted \<notin> set [Op_proxy \<lparr>MaxConnections = 0, ConnectionsCounter = 3\<rparr>,
         Op_GET_readiness, Op_Close Background]"
    and h: "Op_NotifyReadyForConnections hc_ref
         \<notin> set [Op_proxy_HC \<lparr>MaxConnections = 0, ConnectionsCounter = 3\<rparr>,
                 Op_GET_readiness_HC, Op_NotifyReadyForConnections nil]"
    by simp_all
  note t = not_started_not_ready [where w = test_Server_world and v = test_HC_world
      and env = env_serving and p = "''8090''" and s = "health test_Server_world"
      and m = "[]" and h = "health test_HC_world" and m' = "DefaultServeMux test_HC_world"
      and c = "\<lparr>MaxConnections = 10, ConnectionsCounter = 10\<rparr>" and dm = "[]" and l = "[]"
      and xs = "[Op_proxy \<lparr>MaxConnections = 0, ConnectionsCounter = 3\<rparr>,
         Op_GET_readiness, Op_Close Background]"
      and ys = "[Op_proxy_HC \<lparr>MaxConnections = 0, ConnectionsCounter = 3\<rparr>,
                 Op_GET_readiness_HC, Op_NotifyReadyForConnections nil]"]
  have i: "\<not> fst (isReady test_Server_world)"
    using c t [THEN conjunct1] by (rule rev_mp)
  have j: "\<not> fst (readinessTest test_HC_world)"
    using d t [THEN conjunct2, THEN conjunct1] by (rule rev_mp)
  have k: "\<not> fst (isReady (Server_run env_serving
        [Op_proxy \<lparr>MaxConnections = 0, ConnectionsCounter = 3\<rparr>, Op_GET_readiness,
         Op_Close Background]
        test_Server_world))"
    using conjI [OF a g] t [THEN conjunct2, THEN conjunct2, THEN conjunct1]
    unfolding e [symmetric] by (rule rev_mp)
  have n: "\<not> fst (readinessTest (HC_run env_serving
        [Op_proxy_HC \<lparr>MaxConnections = 0, ConnectionsCounter = 3\<rparr>, Op_GET_readiness_HC,
         Op_NotifyReadyForConnections nil]
        test_HC_world))"
    using conjI [OF b h] t [THEN conjunct2, THEN conjunct2, THEN conjunct2]
    unfolding f [symmetric] by (rule rev_mp)
  show ?thesis
    by (intro conjI c d i j k n)
qed

text \<open>
  C5. The start notification is idempotent: two calls in sequence leave the world that
  one call leaves. It returns no value and cannot fail: \<open>NotifyStarted\<close> and
  \<open>NotifyReadyForConnections\<close> are total functions from worlds to worlds. After a call
  on the object, the started flag is true after every further sequence of operations,
  so that every later readiness query is decided by the connection limit alone.
\<close>

theorem notify_idempotent:
  "NotifyStarted (NotifyStarted w) = NotifyStarted w
   \<and> NotifyReadyForConnections hc (NotifyReadyForConnections hc v)
       = NotifyReadyForConnections hc v
   \<and> Server.started (health (Server_run env xs (NotifyStarted w)))
   \<and> HC.started (health (HC_run env ys (NotifyReadyForConnections hc_ref v)))
   \<and> fst (isReady (Server_run env xs (NotifyStarted w)))
       = AvailableConn (client (Server_run env xs (NotifyStarted w)))
   \<and> fst (readinessTest (HC_run env ys (NotifyReadyForConnections hc_ref v)))
       = AvailableConn (client (HC_run env ys (NotifyReadyForConnections hc_ref v)))"
proof -
  have a: "Server.started (health (NotifyStarted w))"
    by (simp add: NotifyStarted_def)
  have b: "HC.started (health (NotifyReadyForConnections hc_ref v))"
    by (simp add: NotifyReadyForConnections_def)
  show ?thesis
    using Server_run_started [OF a, of env xs] HC_run_started [OF b, of env ys]
    by (simp add: isReady_fst readinessTest_fst AvailableConn_def)
      (simp add: NotifyStarted_def NotifyReadyForConnections_def)
qed

theorem notify_idempotent_witness:
  "NotifyStarted (NotifyStarted test_Server_world) = NotifyStarted test_Server_world
   \<and> NotifyStarted test_Server_world \<noteq> test_Server_world
   \<and> NotifyReadyForConnections hc_ref (NotifyReadyForConnections hc_ref test_HC_world)
       = NotifyReadyForConnections hc_ref test_HC_world
   \<and> NotifyReadyForConnections hc_ref test_HC_world \<noteq> test_HC_world
   \<and> Server.started (health (Server_run env_failing
        [Op_GET_readiness, Op_Close Background] (NotifyStarted test_Server_world)))
   \<and> HC.started (health (HC_run env_failing
        [Op_GET_readiness_HC, Op_CloseHealthCheck hc_ref]
        (NotifyReadyForConnections hc_ref test_HC_world)))"
proof -
  note t = notify_idempotent [where w = test_Server_world and v = test_HC_world
      and hc = hc_ref and env = env_failing
      and xs = "[Op_GET_readiness, Op_Close Background]"
      and ys = "[Op_GET_readiness_HC, Op_CloseHealthCheck hc_ref]"]
  have a: "NotifyStarted test_Server_world \<noteq> test_Server_world"
  proof
    assume "NotifyStarted test_Server_world = test_Server_world"
    then have "Server.started (health (NotifyStarted test_Server_world))
                 = Server.started (health test_Server_world)"
      by simp
    then show False
      by (simp add: NotifyStarted_def test_Server_world_def)
  qed
  have b: "NotifyReadyForConnections hc_ref test_HC_world \<noteq> test_HC_world"
  proof
    assume "NotifyReadyForConnections hc_ref test_HC_world = test_HC_world"
    then have "HC.started (health (NotifyReadyForConnections hc_ref test_HC_world))
                 = HC.started (health test_HC_world)"
      by simp
    then show False
      by (simp add: NotifyReadyForConnections_def test_HC_world_def)
  qed
  show ?thesis
    by (intro conjI a b t [THEN conjunct1] t [THEN conjunct2, THEN conjunct1]
        t [THEN conjunct2, THEN conjunct2, THEN conjunct1]
        t [THEN conjunct2, THEN conjunct2, THEN conjunct2, THEN conjunct1])
qed

section \<open>Liveness\<close>

text \<open>
  C3. The liveness predicate, \<open>isLive\<close> as well as \<open>livenessTest\<close>, is true, with no
  precondition. So the liveness handler never takes its error branch: for every response
  writer and every world it is its success branch, and on the fresh response writer of a
  request the status it writes is 200.
\<close>

theorem liveness_always_succeeds:
  "isLive \<and> livenessTest
   \<and> livenessHandler rw w = (Write ''ok'' (WriteHeader 200 rw), w)
   \<and> livenessHandlerHC rw v
       = (Write (''ok'' @ [CHR 0x0A]) (WriteHeader 200 rw),
          v\<lparr>health := (health v)\<lparr>live := True\<rparr>\<rparr>)
   \<and> status (fst (livenessHandler newResponseWriter w)) = Some 200
   \<and> status (fst (livenessHandlerHC newResponseWriter v)) = Some 200"
  by (simp add: isLive_def livenessTest_def livenessHandler_def livenessHandlerHC_def Let_def)

section \<open>Frame properties\<close>

text \<open>
  C9. On a nil \<open>HC\<close> receiver, \<open>NotifyReadyForConnections\<close> and \<open>CloseHealthCheck\<close> do
  nothing: they return without reading the object, whatever the environment, and the
  world they leave is the world they found.
\<close>

theorem nil_receiver_noop:
  "NotifyReadyForConnections nil v = v \<and> CloseHealthCheck env nil v = v"
  by (simp add: NotifyReadyForConnections_def CloseHealthCheck_def)

text \<open>
  C10. The readiness predicate only reads the startup state and the proxy client: for
  every world, the health-check object (the started flag in particular), the client
  (its connection count and its limit) and the default mux are the same after \<open>isReady\<close>
  and after \<open>readinessTest\<close> as before. Only the logging sink can differ.
\<close>

theorem readiness_read_only:
  "Server.started (health (snd (isReady w))) = Server.started (health w)
   \<and> health (snd (isReady w)) = health w
   \<and> ConnectionsCounter (client (snd (isReady w))) = ConnectionsCounter (client w)
   \<and> MaxConnections (client (snd (isReady w))) = MaxConnections (client w)
   \<and> snd (isReady w) = w\<lparr>logs := logs (snd (isReady w))\<rparr>
   \<and> HC.started (health (snd (readinessTest v))) = HC.started (health v)
   \<and> health (snd (readinessTest v)) = health v
   \<and> ConnectionsCounter (client (snd (readinessTest v))) = ConnectionsCounter (client v)
   \<and> MaxConnections (client (snd (readinessTest v))) = MaxConnections (client v)
   \<and> snd (readinessTest v) = v\<lparr>logs := logs (snd (readinessTest v))\<rparr>"
  by (simp add: isReady_def readinessTest_def Let_def)

section \<open>Construction, responses and shutdown\<close>

text \<open>
  C6, as amended. \<open>NewServer\<close> binds the TCP listener before it returns: it never
  panics, it returns the error of \<^verbatim>\<open>net.Listen\<close> and no handle when the bind fails, and
  it returns a handle only after a successful bind, with the goroutine serving the bound
  listener. \<open>NewHealthCheck\<close> has no error result and binds nothing before it returns:
  unless a route is registered already it returns a handle, and its goroutine calls
  \<^verbatim>\<open>ListenAndServe\<close>; a bind failure is an error of that call, found in the background
  and written to the log.
\<close>

theorem constructor_bind_amended:
  "NewServer env p \<noteq> None
   \<and> (net_Listen env ''tcp'' ('':'' @ p) = Inl err \<longrightarrow> NewServer env p = Some (Inl err))
   \<and> (NewServer env p = Some (Inr (s, g)) \<longrightarrow>
        (\<exists>ln. net_Listen env ''tcp'' ('':'' @ p) = Inr ln \<and> g = GoServe (Server.srv s) ln))
   \<and> (readinessPath \<notin> fst ` set m \<and> livenessPath \<notin> fst ` set m \<longrightarrow>
        NewHealthCheck m \<noteq> None)
   \<and> (NewHealthCheck m = Some (h, m', g') \<longrightarrow> g' = GoListenAndServe (HC.srv h))
   \<and> (ListenAndServe env sv = Some err' \<and> err' \<noteq> ErrServerClosed \<longrightarrow>
        run_goroutine env (GoListenAndServe sv) sink
          = sink @ [(''Failed to start endpoint(s): %v'', [ArgErr err'])])"
proof -
  have "\<exists>ln. net_Listen env ''tcp'' ('':'' @ p) = Inr ln \<and> g = GoServe (Server.srv s) ln"
    if "NewServer env p = Some (Inr (s, g))"
    using that by (auto simp: NewServer_cases split: sum.splits)
  then show ?thesis
    using NewHealthCheck_goroutine [of m h m' g'] NewHealthCheck_returns [of m]
    by (simp add: NewServer_cases Errorf_def)
qed

theorem constructor_bind_amended_witness:
  "NewServer env_failing ''8090'' = Some (Inl (OpError ''bind: address already in use''))
   \<and> NewServer env_serving ''8090''
     = Some (Inr (health test_Server_world,
                  GoServe (Server.srv (health test_Server_world)) (TCPListener '':8090'')))
   \<and> NewHealthCheck []
     = Some (health test_HC_world, DefaultServeMux test_HC_world,
             GoListenAndServe (HC.srv (health test_HC_world)))
   \<and> run_goroutine env_failing (GoListenAndServe (HC.srv (health test_HC_world))) []
     = [(''Failed to start endpoint(s): %v'',
         [ArgErr (OpError ''bind: address already in use'')])]"
proof -
  note t = constructor_bind_amended [where env = env_failing and p = "''8090''"
      and err = "OpError ''bind: address already in use''"
      and sv = "HC.srv (health test_HC_world)"
      and err' = "OpError ''bind: address already in use''" and sink = "[]"]
  have a: "net_Listen env_failing ''tcp'' ('':'' @ ''8090'')
             = Inl (OpError ''bind: address already in use'')"
    by (simp add: env_failing_def)
  have b: "ListenAndServe env_failing (HC.srv (health test_HC_world))
             = Some (OpError ''bind: address already in use'')
           \<and> OpError ''bind: address already in use'' \<noteq> ErrServerClosed"
    by (simp add: env_failing_def)
  have c: "NewServer env_failing ''8090'' = Some (Inl (OpError ''bind: address already in use''))"
    using a t [THEN conjunct2, THEN conjunct1] by (rule rev_mp)
  have d: "run_goroutine env_failing (GoListenAndServe (HC.srv (health test_HC_world))) []
     = [] @ [(''Failed to start endpoint(s): %v'',
         [ArgErr (OpError ''bind: address already in use'')])]"
    using b t [THEN conjunct2, THEN conjunct2, THEN conjunct2, THEN conjunct2,
        THEN conjunct2] by (rule rev_mp)
  have e: "NewServer env_serving ''8090''
     = Some (Inr (health test_Server_world,
                  GoServe (Server.srv (health test_Server_world)) (TCPListener '':8090'')))"
    by (simp add: NewServer_cases env_serving_def test_Server_world_def readinessPath_def
        livenessPath_def)
  have f: "NewHealthCheck []
     = Some (health test_HC_world, DefaultServeMux test_HC_world,
             GoListenAndServe (HC.srv (health test_HC_world)))"
    by (simp add: NewHealthCheck_fresh test_HC_world_def)
  show ?thesis
    using c d e f by simp
qed

text \<open>
  The claim as first stated also covers \<open>NewHealthCheck\<close>. In the environment where the
  port is in use, \<open>NewHealthCheck\<close> returns a handle all the same; the failure appears
  only when the goroutine runs, as a log entry.
\<close>

theorem NewHealthCheck_bind_counterexample:
  "ListenAndServe env_failing \<lparr>Addr = '':8080'', Handler = None\<rparr>
     = Some (OpError ''bind: address already in use'')
   \<and> NewHealthCheck []
     = Some (\<lparr>live = True, ready = False, started = False,
              srv = \<lparr>Addr = '':8080'', Handler = None\<rparr>\<rparr>,
             [(''/readiness'', readinessFunc), (''/liveness'', livenessFunc)],
             GoListenAndServe \<lparr>Addr = '':8080'', Handler = None\<rparr>)
   \<and> run_goroutine env_failing (GoListenAndServe \<lparr>Addr = '':8080'', Handler = None\<rparr>) []
     = [(''Failed to start endpoint(s): %v'',
         [ArgErr (OpError ''bind: address already in use'')])]"
  by (simp add: NewHealthCheck_fresh env_failing_def Errorf_def)

text \<open>
  C7, as amended. On the fresh response writer of a request, the readiness handler of
  either version answers 200 when the readiness predicate returns true and 500 when it
  returns false, and the liveness handler answers 200. The body is exactly \<^verbatim>\<open>ok\<close> or
  \<^verbatim>\<open>error\<close> in the handlers of \<open>NewServer\<close>; in the handlers of \<open>NewHealthCheck\<close> it is
  \<^verbatim>\<open>ok\<close> or \<^verbatim>\<open>error\<close> followed by a line feed.
\<close>

theorem handler_responses_amended:
  "fst (readinessHandler newResponseWriter w)
     = (if fst (isReady w) then \<lparr>status = Some 200, body = ''ok''\<rparr>
        else \<lparr>status = Some 500, body = ''error''\<rparr>)
   \<and> fst (livenessHandler newResponseWriter w) = \<lparr>status = Some 200, body = ''ok''\<rparr>
   \<and> fst (readinessHandlerHC newResponseWriter v)
     = (if fst (readinessTest v) then \<lparr>status = Some 200, body = ''ok'' @ [CHR 0x0A]\<rparr>
        else \<lparr>status = Some 500, body = ''error'' @ [CHR 0x0A]\<rparr>)
   \<and> fst (livenessHandlerHC newResponseWriter v)
     = \<lparr>status = Some 200, body = ''ok'' @ [CHR 0x0A]\<rparr>"
  by (simp add: readinessHandler_def livenessHandler_def readinessHandlerHC_def
      livenessHandlerHC_def isLive_def livenessTest_def Let_def split: prod.splits)

text \<open>
  The claim as first stated asks for the bodies \<^verbatim>\<open>ok\<close> and \<^verbatim>\<open>error\<close> exactly. The
  readiness handler of \<open>NewHealthCheck\<close> answers with three bytes where readiness holds
  and with six where it does not.
\<close>

theorem readinessHandlerHC_body_counterexample:
  "fst (readinessTest ((NotifyReadyForConnections hc_ref test_HC_world)
          \<lparr>client := \<lparr>MaxConnections = 10, ConnectionsCounter = 9\<rparr>\<rparr>))
   \<and> body (fst (readinessHandlerHC newResponseWriter
          ((NotifyReadyForConnections hc_ref test_HC_world)
             \<lparr>client := \<lparr>MaxConnections = 10, ConnectionsCounter = 9\<rparr>\<rparr>)))
       = [CHR ''o'', CHR ''k'', CHR 0x0A]
   \<and> body (fst (readinessHandlerHC newResponseWriter
          ((NotifyReadyForConnections hc_ref test_HC_world)
             \<lparr>client := \<lparr>MaxConnections = 10, ConnectionsCounter = 9\<rparr>\<rparr>)))
       \<noteq> ''ok''
   \<and> \<not> fst (readinessTest test_HC_world)
   \<and> body (fst (readinessHandlerHC newResponseWriter test_HC_world))
       = [CHR ''e'', CHR ''r'', CHR ''r'', CHR ''o'', CHR ''r'', CHR 0x0A]
   \<and> body (fst (readinessHandlerHC newResponseWriter test_HC_world)) \<noteq> ''error''"
  by (simp add: readinessHandlerHC_def readinessTest_def NotifyReadyForConnections_def
      test_HC_world_def Let_def Errorf_def)

text \<open>
  C8, as amended. \<open>Close\<close> takes a context and returns to its caller exactly what
  \<^verbatim>\<open>Shutdown\<close> returned for that context: the error when shutdown did not complete
  cleanly, no error when it did. \<open>CloseHealthCheck\<close> takes no context and has no result:
  it shuts down with the background context, and an error of \<^verbatim>\<open>Shutdown\<close> is written
  to the log.
\<close>

theorem close_amended:
  "Close env ctx w = (Shutdown env ctx (Server.srv (health w)), w)
   \<and> CloseHealthCheck env hc_ref v
     = (case Shutdown env Background (HC.srv (health v)) of
          None \<Rightarrow> v
        | Some err \<Rightarrow>
            v\<lparr>logs := logs v @ [(''Failed to shut down health check: '', [ArgErr err])]\<rparr>)"
  by (simp add: Close_def CloseHealthCheck_def Errorf_def Let_def split: option.splits)

text \<open>
  The claim as first stated also covers \<open>CloseHealthCheck\<close>. Where shutdown fails,
  \<open>Close\<close> hands the error to its caller, while all that \<open>CloseHealthCheck\<close> leaves is a
  log entry.
\<close>

theorem CloseHealthCheck_counterexample:
  "Shutdown env_failing Background (HC.srv (health test_HC_world))
     = Some (OpError ''close: input/output error'')
   \<and> CloseHealthCheck env_failing hc_ref test_HC_world
     = test_HC_world
         \<lparr>logs := [(''Failed to shut down health check: '',
                    [ArgErr (OpError ''close: input/output error'')])]\<rparr>
   \<and> fst (Close env_failing (WithDeadline 5) test_Server_world) = Some DeadlineExceeded"
  by (simp add: CloseHealthCheck_def Close_def env_failing_def test_HC_world_def
      Errorf_def Let_def)

end
